theory Spec2Isabelle
  imports Main
begin

section \<open>Strings, slices and time\<close>

text \<open>
  A Go \<^verbatim>\<open>string\<close> is a sequence of bytes, here a \<^typ>\<open>string\<close> (a list of 8-bit
  characters). A Go slice is either \<^verbatim>\<open>nil\<close> or a (possibly empty) sequence: a variadic
  call with no argument passes \<^verbatim>\<open>nil\<close>, while \<^verbatim>\<open>make([]T, 0, n)\<close> is empty and not
  \<^verbatim>\<open>nil\<close>. The storages test \<^verbatim>\<open>keys == nil\<close>, so the difference is kept:
  \<open>None\<close> is the nil slice.
\<close>

type_synonym 'a slice = "'a list option"

text \<open>The elements a \<^verbatim>\<open>range\<close> loop visits: none for the nil slice.\<close>

definition elems :: "'a slice \<Rightarrow> 'a list" where
  "elems xs = (case xs of None \<Rightarrow> [] | Some ys \<Rightarrow> ys)"

text \<open>
  \<^verbatim>\<open>strings.TrimSpace\<close> (Go standard library) removes leading and trailing white space
  as defined by Unicode. The white-space code points are listed by their UTF-8 encodings;
  a malformed byte decodes to U+FFFD, which is not white space, so trimming amounts to
  removing these byte sequences from both ends.
\<close>

definition whiteSpace :: "string list" where
  "whiteSpace =
    [[CHR 0x09], [CHR 0x0A], [CHR 0x0B], [CHR 0x0C], [CHR 0x0D], [CHR 0x20],
     [CHR 0xC2, CHR 0x85], [CHR 0xC2, CHR 0xA0],
     [CHR 0xE1, CHR 0x9A, CHR 0x80],
     [CHR 0xE2, CHR 0x80, CHR 0x80], [CHR 0xE2, CHR 0x80, CHR 0x81],
     [CHR 0xE2, CHR 0x80, CHR 0x82], [CHR 0xE2, CHR 0x80, CHR 0x83],
     [CHR 0xE2, CHR 0x80, CHR 0x84], [CHR 0xE2, CHR 0x80, CHR 0x85],
     [CHR 0xE2, CHR 0x80, CHR 0x86], [CHR 0xE2, CHR 0x80, CHR 0x87],
     [CHR 0xE2, CHR 0x80, CHR 0x88], [CHR 0xE2, CHR 0x80, CHR 0x89],
     [CHR 0xE2, CHR 0x80, CHR 0x8A],
     [CHR 0xE2, CHR 0x80, CHR 0xA8], [CHR 0xE2, CHR 0x80, CHR 0xA9],
     [CHR 0xE2, CHR 0x80, CHR 0xAF], [CHR 0xE2, CHR 0x81, CHR 0x9F],
     [CHR 0xE3, CHR 0x80, CHR 0x80]]"

function stripRunes :: "string list \<Rightarrow> string \<Rightarrow> string" where
  "stripRunes ws s =
     (case find (\<lambda>w. w \<noteq> [] \<and> take (length w) s = w) ws of
        None \<Rightarrow> s
      | Some w \<Rightarrow> stripRunes ws (drop (length w) s))"
  by pat_completeness auto
termination
proof (relation "measure (\<lambda>(ws, s). length s)")
  show "wf (measure (\<lambda>(ws, s). length s))" by simp
next
  fix ws :: "string list" and s w :: string
  assume "find (\<lambda>w. w \<noteq> [] \<and> take (length w) s = w) ws = Some w"
  then have "w \<noteq> []" and "take (length w) s = w"
    by (auto simp: find_Some_iff)
  then have "0 < length w" and "s \<noteq> []"
    by auto
  then show "((ws, drop (length w) s), (ws, s)) \<in> measure (\<lambda>(ws, s). length s)"
    by simp
qed

definition TrimSpace :: "string \<Rightarrow> string" where
  "TrimSpace s = rev (stripRunes (map rev whiteSpace) (rev (stripRunes whiteSpace s)))"

text \<open>
  A \<^verbatim>\<open>time.Time\<close> is taken as the number of nanoseconds since the Unix epoch;
  \<^verbatim>\<open>t.Unix()\<close> is the number of whole seconds. \<^verbatim>\<open>time.Duration\<close> is an \<^verbatim>\<open>int64\<close> of
  nanoseconds: \<^verbatim>\<open>time.Second * time.Duration(n)\<close> is the one computation of the
  storages that can overflow, and its wrap-around at 64 bits is written out. \<^verbatim>\<open>int\<close> is
  taken as 64 bits wide, so the conversions between \<^verbatim>\<open>int\<close> and \<^verbatim>\<open>int64\<close> change nothing,
  and both are integers here.
\<close>

type_synonym Time = int

definition Unix :: "Time \<Rightarrow> int" where
  "Unix t = t div 1000000000"

definition wrap64 :: "int \<Rightarrow> int" where
  "wrap64 x = (x + 2 ^ 63) mod 2 ^ 64 - 2 ^ 63"

definition Seconds :: "int \<Rightarrow> int" where
  "Seconds n = wrap64 (1000000000 * n)"

definition Add :: "Time \<Rightarrow> int \<Rightarrow> Time" where
  "Add t d = t + d"

section \<open>The storage interface\<close>

text \<open>
  \<^verbatim>\<open>kv.Item\<close>: key, value and the time to live in seconds (\<open>0\<close> means no TTL).
\<close>

record Item =
  Key :: string
  Value :: string
  TTL :: int

datatype error =
    ErrNoKeys
  | ErrEmptyKey
  | ErrEmptyItem
  | ErrNoConfig
  | ErrMessage string

text \<open>\<^verbatim>\<open>kv.EmptyItem\<close> is the zero value of \<^verbatim>\<open>kv.Item\<close>.\<close>

definition EmptyItem :: Item where
  "EmptyItem = \<lparr>Key = [], Value = [], TTL = 0\<rparr>"

section \<open>The in-memory storage\<close>

text \<open>
  The \<^verbatim>\<open>heap\<close> of \<^verbatim>\<open>memory.Storage\<close> is a \<^verbatim>\<open>sync.Map\<close> from keys to items. Every
  operation returns its result and, when it writes, the heap it leaves behind.
\<close>

type_synonym heap = "string \<rightharpoonup> Item"

fun memory_Has_loop :: "heap \<Rightarrow> string list \<Rightarrow> (string \<rightharpoonup> bool) \<Rightarrow> error + (string \<rightharpoonup> bool)" where
  "memory_Has_loop h [] m = Inr m"
| "memory_Has_loop h (key # keys) m =
     (if TrimSpace key = [] then Inl ErrEmptyKey
      else if h key \<noteq> None then memory_Has_loop h keys (m(key \<mapsto> True))
      else memory_Has_loop h keys (m(key \<mapsto> False)))"

definition memory_Has :: "heap \<Rightarrow> string slice \<Rightarrow> error + (string \<rightharpoonup> bool)" where
  "memory_Has h keys =
     (if keys = None then Inl ErrNoKeys
      else memory_Has_loop h (elems keys) Map.empty)"

text \<open>The result of \<^verbatim>\<open>Get\<close> is \<open>None\<close> for the nil byte slice.\<close>

definition memory_Get :: "heap \<Rightarrow> string \<Rightarrow> error + string option" where
  "memory_Get h key =
     (if TrimSpace key = [] then Inl ErrEmptyKey
      else case h key of
        Some data \<Rightarrow> Inr (Some (Value data))
      | None \<Rightarrow> Inr None)"

text \<open>The check that several operations run first: no key may trim to the empty string.\<close>

fun checkKeys :: "string list \<Rightarrow> error option" where
  "checkKeys [] = None"
| "checkKeys (key # keys) =
     (if TrimSpace key = [] then Some ErrEmptyKey else checkKeys keys)"

fun memory_MGet_loop :: "heap \<Rightarrow> string list \<Rightarrow> Item list \<Rightarrow> Item list" where
  "memory_MGet_loop h [] m = m"
| "memory_MGet_loop h (key # keys) m =
     (case h key of
        Some v \<Rightarrow> memory_MGet_loop h keys (m @ [v])
      | None \<Rightarrow> memory_MGet_loop h keys m)"

definition memory_MGet :: "heap \<Rightarrow> string slice \<Rightarrow> error + Item list" where
  "memory_MGet h keys =
     (if keys = None then Inl ErrNoKeys
      else case checkKeys (elems keys) of
        Some e \<Rightarrow> Inl e
      | None \<Rightarrow> Inr (memory_MGet_loop h (elems keys) []))"

text \<open>
  \<^verbatim>\<open>Set\<close> reads the clock once for every item with a positive TTL: \<open>clock i\<close> is the
  reading while the item at index \<open>i\<close> is stored.
\<close>

fun memory_Set_loop :: "(nat \<Rightarrow> Time) \<Rightarrow> nat \<Rightarrow> heap \<Rightarrow> Item list \<Rightarrow> heap" where
  "memory_Set_loop clock i h [] = h"
| "memory_Set_loop clock i h (kvItem # items) =
     (if TTL kvItem > 0 then
        memory_Set_loop clock (Suc i)
          (h(Key kvItem \<mapsto>
             \<lparr>Key = Key kvItem, Value = Value kvItem,
              TTL = Unix (Add (clock i) (Seconds (TTL kvItem)))\<rparr>)) items
      else
        memory_Set_loop clock (Suc i)
          (h(Key kvItem \<mapsto> \<lparr>Key = Key kvItem, Value = Value kvItem, TTL = 0\<rparr>)) items)"

definition memory_Set :: "(nat \<Rightarrow> Time) \<Rightarrow> heap \<Rightarrow> Item slice \<Rightarrow> error option \<times> heap" where
  "memory_Set clock h items =
     (if items = None then (Some ErrNoKeys, h)
      else (None, memory_Set_loop clock 0 h (elems items)))"

fun memory_MExpire_loop :: "int \<Rightarrow> heap \<Rightarrow> string list \<Rightarrow> heap" where
  "memory_MExpire_loop ut h [] = h"
| "memory_MExpire_loop ut h (key # keys) =
     (case h key of
        Some kvItem \<Rightarrow> memory_MExpire_loop ut (h(key \<mapsto> kvItem\<lparr>TTL := ut\<rparr>)) keys
      | None \<Rightarrow> memory_MExpire_loop ut h keys)"

definition memory_MExpire :: "Time \<Rightarrow> heap \<Rightarrow> int \<Rightarrow> string slice \<Rightarrow> error option \<times> heap" where
  "memory_MExpire now h timeout keys =
     (if timeout = 0 \<or> keys = None
      then (Some (ErrMessage ''should set timeout and at least one key''), h)
      else (None, memory_MExpire_loop (Unix (Add now (Seconds timeout))) h (elems keys)))"

fun memory_TTL_loop :: "heap \<Rightarrow> string list \<Rightarrow> (string \<rightharpoonup> int) \<Rightarrow> (string \<rightharpoonup> int)" where
  "memory_TTL_loop h [] m = m"
| "memory_TTL_loop h (key # keys) m =
     (case h key of
        Some item \<Rightarrow> memory_TTL_loop h keys (m(key \<mapsto> TTL item))
      | None \<Rightarrow> memory_TTL_loop h keys m)"

definition memory_TTL :: "heap \<Rightarrow> string slice \<Rightarrow> error + (string \<rightharpoonup> int)" where
  "memory_TTL h keys =
     (if keys = None then Inl ErrNoKeys
      else case checkKeys (elems keys) of
        Some e \<Rightarrow> Inl e
      | None \<Rightarrow> Inr (memory_TTL_loop h (elems keys) Map.empty))"

fun memory_Delete_loop :: "heap \<Rightarrow> string list \<Rightarrow> heap" where
  "memory_Delete_loop h [] = h"
| "memory_Delete_loop h (key # keys) = memory_Delete_loop (h(key := None)) keys"

definition memory_Delete :: "heap \<Rightarrow> string slice \<Rightarrow> error option \<times> heap" where
  "memory_Delete h keys =
     (if keys = None then (Some ErrNoKeys, h)
      else case checkKeys (elems keys) of
        Some e \<Rightarrow> (Some e, h)
      | None \<Rightarrow> (None, memory_Delete_loop h (elems keys)))"

text \<open>
  One tick of \<^verbatim>\<open>gcPhase\<close>: \<^verbatim>\<open>Range\<close> visits every entry and deletes those with
  \<^verbatim>\<open>now.Unix() > TTL\<close>. The verdict on an entry depends on that entry alone, so the order
  of the visit does not matter. The reaper runs one sweep per tick until it is stopped:
  a run is the list of the tick times it received.
\<close>

definition gcSweep :: "Time \<Rightarrow> heap \<Rightarrow> heap" where
  "gcSweep now h =
     (\<lambda>key. case h key of
        None \<Rightarrow> None
      | Some v \<Rightarrow> if Unix now > TTL v then None else Some v)"

fun gcPhase :: "Time list \<Rightarrow> heap \<Rightarrow> heap" where
  "gcPhase [] h = h"
| "gcPhase (now # ticks) h = gcPhase ticks (gcSweep now h)"

section \<open>The redis adapter\<close>

text \<open>
  \<^verbatim>\<open>redis.Storage\<close> forwards to a go-redis client, which is not part of the repository:
  the commands the adapter issues are parameters, each a function of the state \<open>'c\<close> of
  the server behind the client. \<open>GET\<close> and \<open>MGET\<close> only read; \<open>SET\<close> reports an
  error or not and leaves a new state; the reply of \<open>EXPIRE\<close> is dropped by the adapter.
  A duration is a number of nanoseconds.
\<close>

record 'c Client =
  client_Get :: "string \<Rightarrow> 'c \<Rightarrow> error + string option"
  client_MGet :: "string list \<Rightarrow> 'c \<Rightarrow> error + string option list"
  client_Set :: "string \<Rightarrow> string \<Rightarrow> int \<Rightarrow> 'c \<Rightarrow> error option \<times> 'c"
  client_Expire :: "string \<Rightarrow> int \<Rightarrow> 'c \<Rightarrow> 'c"

definition redis_Get :: "'c Client \<Rightarrow> 'c \<Rightarrow> string \<Rightarrow> error + string option" where
  "redis_Get client c key =
     (if TrimSpace key = [] then Inl ErrEmptyKey
      else client_Get client key c)"

definition redis_MGet :: "'c Client \<Rightarrow> 'c \<Rightarrow> string slice \<Rightarrow> error + string option list" where
  "redis_MGet client c keys =
     (if keys = None then Inl ErrNoKeys
      else case checkKeys (elems keys) of
        Some e \<Rightarrow> Inl e
      | None \<Rightarrow> client_MGet client (elems keys) c)"

fun redis_Set_loop :: "'c Client \<Rightarrow> 'c \<Rightarrow> Item list \<Rightarrow> error option \<times> 'c" where
  "redis_Set_loop client c [] = (None, c)"
| "redis_Set_loop client c (item # items) =
     (if item = EmptyItem then (Some ErrEmptyItem, c)
      else case client_Set client (Key item) (Value item) (Seconds (TTL item)) c of
        (Some err, c') \<Rightarrow> (Some err, c')
      | (None, c') \<Rightarrow> redis_Set_loop client c' items)"

definition redis_Set :: "'c Client \<Rightarrow> 'c \<Rightarrow> Item slice \<Rightarrow> error option \<times> 'c" where
  "redis_Set client c items =
     (if items = None then (Some ErrNoKeys, c)
      else redis_Set_loop client c (elems items))"

fun redis_MExpire_loop :: "'c Client \<Rightarrow> int \<Rightarrow> 'c \<Rightarrow> string list \<Rightarrow> 'c" where
  "redis_MExpire_loop client t c [] = c"
| "redis_MExpire_loop client t c (key # keys) =
     redis_MExpire_loop client t (client_Expire client key t c) keys"

definition redis_MExpire :: "'c Client \<Rightarrow> 'c \<Rightarrow> int \<Rightarrow> string slice \<Rightarrow> error option \<times> 'c" where
  "redis_MExpire client c timeout keys =
     (if timeout = 0 \<or> keys = None
      then (Some (ErrMessage ''should set timeout and at least one key''), c)
      else (None, redis_MExpire_loop client (Seconds timeout) c (elems keys)))"

text \<open>
  The error go-redis reports for a key the server does not hold (\<^verbatim>\<open>redis.Nil\<close>, whose
  message is \<^verbatim>\<open>redis: nil\<close>), and the replies of a server that holds no key at all.
\<close>

definition redis_Nil :: error where
  "redis_Nil = ErrMessage ''redis: nil''"

definition emptyServer :: "unit Client" where
  "emptyServer =
     \<lparr>client_Get = (\<lambda>key c. Inl redis_Nil),
      client_MGet = (\<lambda>keys c. Inr (map (\<lambda>key. None) keys)),
      client_Set = (\<lambda>key v d c. (None, c)),
      client_Expire = (\<lambda>key d c. c)\<rparr>"

section \<open>The RPC server\<close>

text \<open>
  \<^verbatim>\<open>rpc.go\<close> is written against the later \<^verbatim>\<open>kv.Item\<close>, whose expiry is a string, and
  against a \<^verbatim>\<open>Storage\<close> interface whose \<^verbatim>\<open>MExpire\<close> takes items. Neither declaration is
  among the sources, nor is \<^verbatim>\<open>Service\<close>. An interface value is taken as the methods of
  the instance together with its state \<open>self\<close>; every method returns its result and the
  state afterwards. The registry \<^verbatim>\<open>r.svc.Storages\<close> maps names to such values; the lookup
  of an unknown name yields the nil interface.
\<close>

record RpcItem =
  ItemKey :: string
  ItemValue :: string
  ItemTTL :: string

record 's Storage =
  self :: 's
  Storage_Has :: "string slice \<Rightarrow> 's \<Rightarrow> (error + (string \<rightharpoonup> bool)) \<times> 's"
  Storage_Get :: "string \<Rightarrow> 's \<Rightarrow> (error + string option) \<times> 's"
  Storage_MGet :: "string slice \<Rightarrow> 's \<Rightarrow> (error + (string \<rightharpoonup> string)) \<times> 's"
  Storage_Set :: "RpcItem slice \<Rightarrow> 's \<Rightarrow> error option \<times> 's"
  Storage_MExpire :: "RpcItem slice \<Rightarrow> 's \<Rightarrow> error option \<times> 's"
  Storage_TTL :: "string slice \<Rightarrow> 's \<Rightarrow> (error + (string \<rightharpoonup> string)) \<times> 's"
  Storage_Delete :: "string slice \<Rightarrow> 's \<Rightarrow> error option \<times> 's"
  Storage_Close :: "'s \<Rightarrow> error option \<times> 's"

type_synonym 's Service = "string \<rightharpoonup> 's Storage"

text \<open>The decoded requests: the flat records \<^verbatim>\<open>Data\<close> and \<^verbatim>\<open>SetData\<close>.\<close>

record Data =
  Storage :: string
  Keys :: "string list"
  Timeout :: string

text \<open>
  \<^verbatim>\<open>dataRoot.Items(it, i)\<close> reports whether it filled \<^verbatim>\<open>it\<close>: an entry of \<open>Items\<close> is
  \<open>None\<close> where it did not.
\<close>

record SetData =
  Items :: "RpcItem option list"
  Storages :: "string list"

text \<open>
  An RPC method returns an error or fills its reply; calling a method on the nil
  interface, or indexing a slice out of range, panics.
\<close>

datatype 'a reply = Reply 'a | Fail error | Panic

definition RpcServer_Has ::
    "'s Service \<Rightarrow> Data \<Rightarrow> (string \<rightharpoonup> bool) reply \<times> 's Service" where
  "RpcServer_Has svc in' =
     (case svc (Storage in') of
        None \<Rightarrow> (Panic, svc)
      | Some st \<Rightarrow>
          (case Storage_Has st (Some (Keys in')) (self st) of
             (Inl err, s') \<Rightarrow> (Fail err, svc(Storage in' \<mapsto> st\<lparr>self := s'\<rparr>))
           | (Inr ret, s') \<Rightarrow> (Reply ret, svc(Storage in' \<mapsto> st\<lparr>self := s'\<rparr>))))"

text \<open>
  \<^verbatim>\<open>items[i] = itc\<close> stores into a slice made with length zero: the index is checked
  against the length, not the capacity.
\<close>

definition storeAt :: "'a list \<Rightarrow> nat \<Rightarrow> 'a \<Rightarrow> 'a list option" where
  "storeAt xs i v = (if i < length xs then Some (xs[i := v]) else None)"

fun decodeItems :: "RpcItem option list \<Rightarrow> nat \<Rightarrow> RpcItem list \<Rightarrow> RpcItem list option" where
  "decodeItems [] i items = Some items"
| "decodeItems (w # ws) i items =
     (case w of
        None \<Rightarrow> decodeItems ws (Suc i) items
      | Some itc \<Rightarrow>
          (case storeAt items i itc of
             None \<Rightarrow> None
           | Some items' \<Rightarrow> decodeItems ws (Suc i) items'))"

text \<open>
  The fan-out starts one task per storage name and waits for all of them; \<^verbatim>\<open>Wait\<close>
  returns the first error reported. The tasks are taken in the order of the names, each
  with its own value of \<^verbatim>\<open>i\<close>; \<open>err\<close> is the first error so far, and the result is
  \<open>None\<close> when a task panicked.
\<close>

fun fanOut ::
    "RpcItem list \<Rightarrow> string list \<Rightarrow> error option \<Rightarrow> 's Service \<Rightarrow>
     error option option \<times> 's Service" where
  "fanOut items [] err svc = (Some err, svc)"
| "fanOut items (name # names) err svc =
     (case svc name of
        None \<Rightarrow> (None, svc)
      | Some st \<Rightarrow>
          (case Storage_Set st (Some items) (self st) of
             (e, s') \<Rightarrow>
               fanOut items names (if err = None then e else err)
                 (svc(name \<mapsto> st\<lparr>self := s'\<rparr>))))"

text \<open>\<^verbatim>\<open>Set\<close> never assigns \<^verbatim>\<open>*ok\<close>: the reply is what the caller passed in.\<close>

definition RpcServer_Set ::
    "'s Service \<Rightarrow> SetData \<Rightarrow> bool \<Rightarrow> bool reply \<times> 's Service" where
  "RpcServer_Set svc in' ok =
     (case decodeItems (Items in') 0 [] of
        None \<Rightarrow> (Panic, svc)
      | Some items \<Rightarrow>
          (case fanOut items (Storages in') None svc of
             (None, svc') \<Rightarrow> (Panic, svc')
           | (Some (Some err), svc') \<Rightarrow> (Fail err, svc')
           | (Some None, svc') \<Rightarrow> (Reply ok, svc')))"

definition RpcServer_Get ::
    "'s Service \<Rightarrow> Data \<Rightarrow> string option reply \<times> 's Service" where
  "RpcServer_Get svc in' =
     (case svc (Storage in') of
        None \<Rightarrow> (Panic, svc)
      | Some st \<Rightarrow>
          (case Keys in' of
             [] \<Rightarrow> (Panic, svc)
           | key # _ \<Rightarrow>
               (case Storage_Get st key (self st) of
                  (Inl err, s') \<Rightarrow> (Fail err, svc(Storage in' \<mapsto> st\<lparr>self := s'\<rparr>))
                | (Inr ret, s') \<Rightarrow> (Reply ret, svc(Storage in' \<mapsto> st\<lparr>self := s'\<rparr>)))))"

definition RpcServer_MGet ::
    "'s Service \<Rightarrow> Data \<Rightarrow> (string \<rightharpoonup> string) reply \<times> 's Service" where
  "RpcServer_MGet svc in' =
     (case svc (Storage in') of
        None \<Rightarrow> (Panic, svc)
      | Some st \<Rightarrow>
          (case Storage_MGet st (Some (Keys in')) (self st) of
             (Inl err, s') \<Rightarrow> (Fail err, svc(Storage in' \<mapsto> st\<lparr>self := s'\<rparr>))
           | (Inr ret, s') \<Rightarrow> (Reply ret, svc(Storage in' \<mapsto> st\<lparr>self := s'\<rparr>))))"

definition RpcServer_MExpire ::
    "'s Service \<Rightarrow> Data \<Rightarrow> bool reply \<times> 's Service" where
  "RpcServer_MExpire svc in' =
     (case svc (Storage in') of
        None \<Rightarrow> (Panic, svc)
      | Some st \<Rightarrow>
          (case Storage_MExpire st
                  (Some (map (\<lambda>key. \<lparr>ItemKey = key, ItemValue = [], ItemTTL = Timeout in'\<rparr>)
                    (Keys in'))) (self st) of
             (Some err, s') \<Rightarrow> (Fail err, svc(Storage in' \<mapsto> st\<lparr>self := s'\<rparr>))
           | (None, s') \<Rightarrow> (Reply True, svc(Storage in' \<mapsto> st\<lparr>self := s'\<rparr>))))"

definition RpcServer_TTL ::
    "'s Service \<Rightarrow> Data \<Rightarrow> (string \<rightharpoonup> string) reply \<times> 's Service" where
  "RpcServer_TTL svc in' =
     (case svc (Storage in') of
        None \<Rightarrow> (Panic, svc)
      | Some st \<Rightarrow>
          (case Storage_TTL st (Some (Keys in')) (self st) of
             (Inl err, s') \<Rightarrow> (Fail err, svc(Storage in' \<mapsto> st\<lparr>self := s'\<rparr>))
           | (Inr ret, s') \<Rightarrow> (Reply ret, svc(Storage in' \<mapsto> st\<lparr>self := s'\<rparr>))))"

definition RpcServer_Delete ::
    "'s Service \<Rightarrow> Data \<Rightarrow> bool reply \<times> 's Service" where
  "RpcServer_Delete svc in' =
     (case svc (Storage in') of
        None \<Rightarrow> (Panic, svc)
      | Some st \<Rightarrow>
          (case Storage_Delete st (Some (Keys in')) (self st) of
             (Some err, s') \<Rightarrow> (Fail err, svc(Storage in' \<mapsto> st\<lparr>self := s'\<rparr>))
           | (None, s') \<Rightarrow> (Reply True, svc(Storage in' \<mapsto> st\<lparr>self := s'\<rparr>))))"

definition RpcServer_Close ::
    "'s Service \<Rightarrow> string \<Rightarrow> bool reply \<times> 's Service" where
  "RpcServer_Close svc storage =
     (case svc storage of
        None \<Rightarrow> (Panic, svc)
      | Some st \<Rightarrow>
          (case Storage_Close st (self st) of
             (Some err, s') \<Rightarrow> (Fail err, svc(storage \<mapsto> st\<lparr>self := s'\<rparr>))
           | (None, s') \<Rightarrow> (Reply True, svc(storage \<mapsto> st\<lparr>self := s'\<rparr>))))"

section \<open>Notions of the specification and example values\<close>

text \<open>
  Following the specification's words, not the code: the heap keeps with an entry the
  Unix second at which it expires, \<open>0\<close> standing for no expiry. The expiry moment of an
  entry has passed when it has one and the clock is beyond it; the time remaining is the
  distance from the clock to it.
\<close>

definition spec_expired :: "Time \<Rightarrow> Item \<Rightarrow> bool" where
  "spec_expired now v \<longleftrightarrow> TTL v \<noteq> 0 \<and> Unix now > TTL v"

definition spec_remaining :: "Time \<Rightarrow> Item \<Rightarrow> int" where
  "spec_remaining now v = TTL v - Unix now"

text \<open>A clock that stands still during a call.\<close>

definition constClock :: "Time \<Rightarrow> nat \<Rightarrow> Time" where
  "constClock t i = t"

text \<open>
  An instance to populate a registry in examples: it holds nothing, accepts every call
  and counts the calls it received.
\<close>

definition idleStorage :: "nat Storage" where
  "idleStorage =
     \<lparr>self = 0,
      Storage_Has = (\<lambda>keys n. (Inr Map.empty, Suc n)),
      Storage_Get = (\<lambda>key n. (Inr None, Suc n)),
      Storage_MGet = (\<lambda>keys n. (Inr Map.empty, Suc n)),
      Storage_Set = (\<lambda>items n. (None, Suc n)),
      Storage_MExpire = (\<lambda>items n. (None, Suc n)),
      Storage_TTL = (\<lambda>keys n. (Inr Map.empty, Suc n)),
      Storage_Delete = (\<lambda>keys n. (None, Suc n)),
      Storage_Close = (\<lambda>n. (None, Suc n))\<rparr>"

section \<open>Facts about the loops\<close>

lemma checkKeys_None_iff: "checkKeys ks = None \<longleftrightarrow> (\<forall>k\<in>set ks. TrimSpace k \<noteq> [])"
  by (induction ks) auto

lemma checkKeys_invalid:
  "k \<in> set ks \<Longrightarrow> TrimSpace k = [] \<Longrightarrow> checkKeys ks = Some ErrEmptyKey"
  by (induction ks) auto

lemma memory_Has_loop_valid:
  "checkKeys ks = None \<Longrightarrow>
   memory_Has_loop h ks m = Inr (\<lambda>k. if k \<in> set ks then Some (h k \<noteq> None) else m k)"
proof (induction ks arbitrary: m)
  case Nil
  then show ?case by simp
next
  case (Cons key keys)
  from Cons.prems have valid: "TrimSpace key \<noteq> []" and rest: "checkKeys keys = None"
    by (auto split: if_splits)
  show ?case
    using valid Cons.IH [OF rest] by (auto simp: fun_eq_iff)
qed

lemma memory_Has_loop_invalid:
  "k \<in> set ks \<Longrightarrow> TrimSpace k = [] \<Longrightarrow> memory_Has_loop h ks m = Inl ErrEmptyKey"
  by (induction ks arbitrary: m) auto

lemma memory_MGet_loop_eq:
  "memory_MGet_loop h ks m = m @ map (\<lambda>k. the (h k)) (filter (\<lambda>k. h k \<noteq> None) ks)"
  by (induction ks arbitrary: m) (auto split: option.splits)

lemma memory_TTL_loop_eq:
  "memory_TTL_loop h ks m =
     (\<lambda>k. if k \<in> set ks \<and> h k \<noteq> None then map_option TTL (h k) else m k)"
  by (induction ks arbitrary: m) (auto simp: fun_eq_iff split: option.splits)

lemma memory_Set_loop_frame:
  "k \<notin> Key ` set items \<Longrightarrow> memory_Set_loop clock i h items k = h k"
  by (induction items arbitrary: i h) auto

lemma memory_MExpire_loop_frame:
  "k \<notin> set keys \<Longrightarrow> memory_MExpire_loop ut h keys k = h k"
  by (induction keys arbitrary: h) (auto split: option.splits)

lemma memory_MExpire_loop_eq:
  "memory_MExpire_loop ut h keys =
     (\<lambda>k. if k \<in> set keys then map_option (\<lambda>v. v\<lparr>TTL := ut\<rparr>) (h k) else h k)"
  by (induction keys arbitrary: h) (auto simp: fun_eq_iff split: option.splits)

lemma memory_Delete_loop_eq:
  "memory_Delete_loop h keys = (\<lambda>k. if k \<in> set keys then None else h k)"
  by (induction keys arbitrary: h) (auto simp: fun_eq_iff)

lemma gcSweep_no_expiry:
  "h k = Some v \<Longrightarrow> TTL v = 0 \<Longrightarrow> 0 < Unix now \<Longrightarrow> gcSweep now h k = None"
  by (simp add: gcSweep_def)

lemma gcPhase_absent: "h k = None \<Longrightarrow> gcPhase ticks h k = None"
  by (induction ticks arbitrary: h) (auto simp: gcSweep_def)

lemma decodeItems_empty: "Some itc \<in> set ws \<Longrightarrow> decodeItems ws i [] = None"
  by (induction ws arbitrary: i) (auto simp: storeAt_def split: option.splits)

lemma valid_key: "TrimSpace ''key'' \<noteq> []"
  by code_simp

lemma valid_gone: "TrimSpace ''gone'' \<noteq> []"
  by code_simp

lemma blank_keys: "TrimSpace [] = []" "TrimSpace ''   '' = []"
  by code_simp+

lemma memory_Set_loop_last:
  "memory_Set_loop clock i h (items @ [item]) (Key item)
     = Some \<lparr>Key = Key item, Value = Value item,
             TTL = (if TTL item > 0
                    then Unix (Add (clock (i + length items)) (Seconds (TTL item))) else 0)\<rparr>"
  by (induction items arbitrary: i h) auto

text \<open>
  What \<^verbatim>\<open>TTL\<close> binds to a key is the expiry field stored with the entry: the Unix
  second of the expiry that \<^verbatim>\<open>Set\<close> or \<^verbatim>\<open>MExpire\<close> computed, or \<open>0\<close>.
\<close>

lemma memory_TTL_value:
  assumes "memory_TTL h keys = Inr m" and "m k = Some t"
  shows "\<exists>v. h k = Some v \<and> TTL v = t"
  using assms
  by (auto simp: memory_TTL_def memory_TTL_loop_eq split: if_splits option.splits)

text \<open>
  The operations that do check their keys: a key that trims to the empty string is
  refused with \<^verbatim>\<open>ErrEmptyKey\<close>, and \<^verbatim>\<open>Delete\<close> refuses before it deletes anything.
\<close>

lemma memory_rejects_empty_key:
  assumes "k \<in> set ks" and "TrimSpace k = []"
  shows "memory_Has h (Some ks) = Inl ErrEmptyKey"
    and "memory_Get h k = Inl ErrEmptyKey"
    and "memory_MGet h (Some ks) = Inl ErrEmptyKey"
    and "memory_TTL h (Some ks) = Inl ErrEmptyKey"
    and "memory_Delete h (Some ks) = (Some ErrEmptyKey, h)"
  using assms
  by (simp_all add: memory_Has_def memory_Get_def memory_MGet_def memory_TTL_def
      memory_Delete_def elems_def memory_Has_loop_invalid checkKeys_invalid)

text \<open>The redis adapter refuses the zero item before it sends anything.\<close>

lemma redis_Set_rejects_EmptyItem:
  "redis_Set client c (Some (EmptyItem # items)) = (Some ErrEmptyItem, c)"
  by (simp add: redis_Set_def elems_def)

section \<open>The claims\<close>

text \<open>
  C1. The specification: an item stored by \<^verbatim>\<open>Set\<close> with no expiry stays present, its
  value unchanged, across every sweep of the reaper. The code does not do this. \<^verbatim>\<open>Set\<close>
  stores an item whose TTL is not positive with the expiry field \<open>0\<close>, and a sweep deletes
  every entry whose expiry field is below the clock's Unix second: for every item stored
  with no expiry (here the last item of a call, which no later item overwrites), at every
  tick after the first second of 1970 the entry is deleted by the first sweep, it is absent
  after every later sweep of the run, and \<^verbatim>\<open>Has\<close> reports \<open>False\<close> for its key.
\<close>

theorem memory_no_expiry_item_evicted:
  assumes "TTL item \<le> 0" and "0 < Unix now"
  shows "snd (memory_Set clock h (Some (items @ [item]))) (Key item)
           = Some \<lparr>Key = Key item, Value = Value item, TTL = 0\<rparr>
         \<and> gcSweep now (snd (memory_Set clock h (Some (items @ [item])))) (Key item) = None
         \<and> gcPhase (now # ticks) (snd (memory_Set clock h (Some (items @ [item])))) (Key item)
             = None
         \<and> memory_Has (gcSweep now (snd (memory_Set clock h (Some (items @ [item])))))
               (Some [Key item])
             = (if TrimSpace (Key item) = [] then Inl ErrEmptyKey
                else Inr [Key item \<mapsto> False])"
proof -
  let ?h = "snd (memory_Set clock h (Some (items @ [item])))"
  have stored: "?h (Key item) = Some \<lparr>Key = Key item, Value = Value item, TTL = 0\<rparr>"
    using assms(1) memory_Set_loop_last [of clock 0 h items item]
    by (simp add: memory_Set_def elems_def)
  then have swept: "gcSweep now ?h (Key item) = None"
    using assms(2) by (simp add: gcSweep_no_expiry)
  then have run: "gcPhase (now # ticks) ?h (Key item) = None"
    by (simp add: gcPhase_absent)
  have "memory_Has (gcSweep now ?h) (Some [Key item])
          = (if TrimSpace (Key item) = [] then Inl ErrEmptyKey else Inr [Key item \<mapsto> False])"
    using swept by (simp add: memory_Has_def elems_def)
  with stored swept run show ?thesis by blast
qed

theorem memory_no_expiry_item_evicted_witness:
  "TTL \<lparr>Key = ''key'', Value = ''hello world'', TTL = 0\<rparr> \<le> 0
   \<and> 0 < Unix 1700000001000000000
   \<and> snd (memory_Set (constClock 1700000000000000000) Map.empty
            (Some [\<lparr>Key = ''key'', Value = ''hello world'', TTL = 0\<rparr>])) ''key''
       = Some \<lparr>Key = ''key'', Value = ''hello world'', TTL = 0\<rparr>
   \<and> gcSweep 1700000001000000000
        (snd (memory_Set (constClock 1700000000000000000) Map.empty
            (Some [\<lparr>Key = ''key'', Value = ''hello world'', TTL = 0\<rparr>]))) ''key'' = None
   \<and> gcPhase [1700000001000000000, 1700000002000000000]
        (snd (memory_Set (constClock 1700000000000000000) Map.empty
            (Some [\<lparr>Key = ''key'', Value = ''hello world'', TTL = 0\<rparr>]))) ''key'' = None
   \<and> memory_Has
        (gcSweep 1700000001000000000
          (snd (memory_Set (constClock 1700000000000000000) Map.empty
            (Some [\<lparr>Key = ''key'', Value = ''hello world'', TTL = 0\<rparr>]))))
        (Some [''key'']) = Inr [''key'' \<mapsto> False]"
proof -
  have a: "TTL \<lparr>Key = ''key'', Value = ''hello world'', TTL = 0\<rparr> \<le> 0" by simp
  have b: "0 < Unix 1700000001000000000" by (simp add: Unix_def)
  show ?thesis
    using memory_no_expiry_item_evicted [OF a b, of "constClock 1700000000000000000" Map.empty
        "[]" "[1700000002000000000]"] a b valid_key
    by simp
qed

text \<open>
  C2. The specification: a request naming a storage that is not in the registry gets
  a routing error, without a panic and without any storage operation. The code has no
  such check in any method. As amended: for every request of \<^verbatim>\<open>Has\<close>, \<^verbatim>\<open>Get\<close>,
  \<^verbatim>\<open>MGet\<close>, \<^verbatim>\<open>MExpire\<close>, \<^verbatim>\<open>TTL\<close>, \<^verbatim>\<open>Delete\<close> or \<^verbatim>\<open>Close\<close> naming a storage that is
  not in the registry, no storage operation is invoked and the registry is left as it
  was, and the call panics instead of returning an error.
\<close>

theorem RpcServer_unknown_storage_panics:
  assumes "svc (Storage in') = None"
  shows "RpcServer_Has svc in' = (Panic, svc)
         \<and> RpcServer_Get svc in' = (Panic, svc)
         \<and> RpcServer_MGet svc in' = (Panic, svc)
         \<and> RpcServer_MExpire svc in' = (Panic, svc)
         \<and> RpcServer_TTL svc in' = (Panic, svc)
         \<and> RpcServer_Delete svc in' = (Panic, svc)
         \<and> RpcServer_Close svc (Storage in') = (Panic, svc)"
  using assms
  by (simp add: RpcServer_Has_def RpcServer_Get_def RpcServer_MGet_def RpcServer_MExpire_def
      RpcServer_TTL_def RpcServer_Delete_def RpcServer_Close_def)

theorem RpcServer_unknown_storage_panics_witness:
  "[''memory'' \<mapsto> idleStorage]
      (Storage \<lparr>Storage = ''redis'', Keys = [''key''], Timeout = []\<rparr>) = None
   \<and> RpcServer_Has [''memory'' \<mapsto> idleStorage]
        \<lparr>Storage = ''redis'', Keys = [''key''], Timeout = []\<rparr>
       = (Panic, [''memory'' \<mapsto> idleStorage])
   \<and> RpcServer_Get [''memory'' \<mapsto> idleStorage]
        \<lparr>Storage = ''redis'', Keys = [''key''], Timeout = []\<rparr>
       = (Panic, [''memory'' \<mapsto> idleStorage])
   \<and> RpcServer_Delete [''memory'' \<mapsto> idleStorage]
        \<lparr>Storage = ''redis'', Keys = [''key''], Timeout = []\<rparr>
       = (Panic, [''memory'' \<mapsto> idleStorage])"
proof -
  have unknown: "[''memory'' \<mapsto> idleStorage]
      (Storage \<lparr>Storage = ''redis'', Keys = [''key''], Timeout = []\<rparr>) = None"
    by simp
  show ?thesis
    using RpcServer_unknown_storage_panics [where svc = "[''memory'' \<mapsto> idleStorage]"
        and in' = "\<lparr>Storage = ''redis'', Keys = [''key''], Timeout = []\<rparr>"] unknown
    by simp
qed

text \<open>
  Against the claim as stated: with the storage \<^verbatim>\<open>memory\<close> registered, \<^verbatim>\<open>Has\<close> and
  \<^verbatim>\<open>Get\<close> for the storage \<^verbatim>\<open>redis\<close> end in a panic, not in an error.
\<close>

theorem RpcServer_unknown_storage_counterexample:
  "[''memory'' \<mapsto> idleStorage] ''redis'' = None
   \<and> fst (RpcServer_Has [''memory'' \<mapsto> idleStorage]
        \<lparr>Storage = ''redis'', Keys = [''key''], Timeout = []\<rparr>) = Panic
   \<and> fst (RpcServer_Get [''memory'' \<mapsto> idleStorage]
        \<lparr>Storage = ''redis'', Keys = [''key''], Timeout = []\<rparr>) = Panic"
  by (simp add: RpcServer_Has_def RpcServer_Get_def)

text \<open>
  C3. The specification: \<^verbatim>\<open>Set\<close> delivers the decoded batch to every named storage,
  reports a backend's error and rolls nothing back. The code does not get that far: the
  decoding loop stores each item with \<^verbatim>\<open>items[i] = itc\<close> into a slice of length zero
  (\<^verbatim>\<open>MExpire\<close>, next to it, appends). For every request that carries at least one item,
  the call panics before any storage is called, and the registry is left as it was.
\<close>

theorem RpcServer_Set_panics:
  assumes "Some itc \<in> set (Items in')"
  shows "RpcServer_Set svc in' ok = (Panic, svc)"
  using assms by (simp add: RpcServer_Set_def decodeItems_empty)

theorem RpcServer_Set_panics_witness:
  "Some \<lparr>ItemKey = ''key'', ItemValue = ''value'', ItemTTL = []\<rparr>
     \<in> set (Items \<lparr>Items = [Some \<lparr>ItemKey = ''key'', ItemValue = ''value'', ItemTTL = []\<rparr>],
                    Storages = [''memory'', ''other'']\<rparr>)
   \<and> RpcServer_Set [''memory'' \<mapsto> idleStorage, ''other'' \<mapsto> idleStorage]
        \<lparr>Items = [Some \<lparr>ItemKey = ''key'', ItemValue = ''value'', ItemTTL = []\<rparr>],
         Storages = [''memory'', ''other'']\<rparr> False
       = (Panic, [''memory'' \<mapsto> idleStorage, ''other'' \<mapsto> idleStorage])"
proof -
  have present: "Some \<lparr>ItemKey = ''key'', ItemValue = ''value'', ItemTTL = []\<rparr>
     \<in> set (Items \<lparr>Items = [Some \<lparr>ItemKey = ''key'', ItemValue = ''value'', ItemTTL = []\<rparr>],
                    Storages = [''memory'', ''other'']\<rparr>)"
    by simp
  from RpcServer_Set_panics [OF present] present show ?thesis
    by blast
qed

text \<open>
  C4. The specification: \<^verbatim>\<open>Has\<close> binds a key to true exactly when an unexpired entry
  exists, so a key whose expiry moment has passed maps to false even before the reaper
  evicted it. No operation of the in-memory storage looks at the expiry; only the reaper
  does. As amended: for every list of valid keys, \<^verbatim>\<open>Has\<close> binds each requested key to
  true exactly when the heap holds an entry for it (whether or not the expiry moment of
  the entry has passed) and to false otherwise, so a key never set maps to false; no
  other key is bound.
\<close>

theorem memory_Has_present:
  assumes "\<forall>k\<in>set ks. TrimSpace k \<noteq> []"
  shows "memory_Has h (Some ks) = Inr (\<lambda>k. if k \<in> set ks then Some (h k \<noteq> None) else None)"
  using assms by (simp add: memory_Has_def elems_def memory_Has_loop_valid checkKeys_None_iff)

theorem memory_Has_present_witness:
  "TrimSpace ''key'' \<noteq> [] \<and> TrimSpace ''gone'' \<noteq> []
   \<and> (case memory_Has [''key'' \<mapsto> \<lparr>Key = ''key'', Value = ''value'', TTL = 105\<rparr>]
             (Some [''key'', ''gone'']) of
        Inl e \<Rightarrow> False
      | Inr m \<Rightarrow> m ''key'' = Some True \<and> m ''gone'' = Some False \<and> m ''never'' = None)"
proof -
  have valid: "\<forall>k\<in>set [''key'', ''gone'']. TrimSpace k \<noteq> []"
    using valid_key valid_gone by simp
  show ?thesis
    using memory_Has_present [OF valid,
        of "[''key'' \<mapsto> \<lparr>Key = ''key'', Value = ''value'', TTL = 105\<rparr>]"]
      valid_key valid_gone
    by simp
qed

text \<open>
  Against the claim as stated: an item set at second 100 with a TTL of 5 seconds is stored
  with the expiry 105; at second 110 its expiry moment has passed, and as long as no sweep
  has run \<^verbatim>\<open>Has\<close> still binds its key to true.
\<close>

theorem memory_Has_expired_counterexample:
  "(case snd (memory_Set (constClock 100000000000) Map.empty
              (Some [\<lparr>Key = ''key'', Value = ''value'', TTL = 5\<rparr>])) ''key'' of
      None \<Rightarrow> False
    | Some v \<Rightarrow> v = \<lparr>Key = ''key'', Value = ''value'', TTL = 105\<rparr>
        \<and> spec_expired 110000000000 v)
   \<and> (case memory_Has
             (snd (memory_Set (constClock 100000000000) Map.empty
               (Some [\<lparr>Key = ''key'', Value = ''value'', TTL = 5\<rparr>])))
             (Some [''key'']) of
        Inl e \<Rightarrow> False
      | Inr m \<Rightarrow> m ''key'' = Some True)"
  using valid_key
  by (simp add: memory_Set_def memory_Has_def elems_def constClock_def Unix_def Add_def
      Seconds_def wrap64_def spec_expired_def)

text \<open>
  C5. The specification: \<^verbatim>\<open>TTL\<close> returns the remaining seconds for each present key
  and omits absent or expired keys. As amended, for the in-memory storage: for every list
  of valid keys, \<^verbatim>\<open>TTL\<close> returns a map whose keys are exactly the requested keys that have
  an entry in the heap; absent keys are omitted, and an entry whose expiry moment has
  passed is still reported until the reaper evicts it.
\<close>

theorem memory_TTL_domain:
  assumes "\<forall>k\<in>set ks. TrimSpace k \<noteq> []"
  shows "\<exists>m. memory_TTL h (Some ks) = Inr m \<and> dom m = {k \<in> set ks. h k \<noteq> None}"
proof -
  have "checkKeys ks = None"
    using assms by (simp add: checkKeys_None_iff)
  then have "memory_TTL h (Some ks) = Inr (memory_TTL_loop h ks Map.empty)"
    by (simp add: memory_TTL_def elems_def)
  moreover have "dom (memory_TTL_loop h ks Map.empty) = {k \<in> set ks. h k \<noteq> None}"
    by (auto simp: memory_TTL_loop_eq dom_def)
  ultimately show ?thesis by blast
qed

theorem memory_TTL_domain_witness:
  "TrimSpace ''key'' \<noteq> [] \<and> TrimSpace ''gone'' \<noteq> []
   \<and> (\<exists>m. memory_TTL [''key'' \<mapsto> \<lparr>Key = ''key'', Value = ''value'', TTL = 105\<rparr>]
             (Some [''key'', ''gone'']) = Inr m
          \<and> dom m = {''key''})"
proof -
  have valid: "\<forall>k\<in>set [''key'', ''gone'']. TrimSpace k \<noteq> []"
    using valid_key valid_gone by simp
  have "{k \<in> set [''key'', ''gone''].
          [''key'' \<mapsto> \<lparr>Key = ''key'', Value = ''value'', TTL = 105\<rparr>] k \<noteq> None} = {''key''}"
    by auto
  then show ?thesis
    using memory_TTL_domain [OF valid,
        of "[''key'' \<mapsto> \<lparr>Key = ''key'', Value = ''value'', TTL = 105\<rparr>]"]
      valid_key valid_gone
    by simp
qed

text \<open>
  Against the claim as stated: for the item set at second 100 with a TTL of 5 seconds,
  3 seconds remain at second 102 and the expiry moment has passed at second 110; at either
  moment \<^verbatim>\<open>TTL\<close> binds the key, and binds it to 105.
\<close>

theorem memory_TTL_counterexample:
  "(case snd (memory_Set (constClock 100000000000) Map.empty
              (Some [\<lparr>Key = ''key'', Value = ''value'', TTL = 5\<rparr>])) ''key'' of
      None \<Rightarrow> False
    | Some v \<Rightarrow> spec_remaining 102000000000 v = 3 \<and> spec_expired 110000000000 v)
   \<and> (case memory_TTL
             (snd (memory_Set (constClock 100000000000) Map.empty
               (Some [\<lparr>Key = ''key'', Value = ''value'', TTL = 5\<rparr>])))
             (Some [''key'']) of
        Inl e \<Rightarrow> False
      | Inr m \<Rightarrow> m ''key'' = Some 105)"
  using valid_key
  by (simp add: memory_Set_def memory_TTL_def elems_def constClock_def Unix_def Add_def
      Seconds_def wrap64_def spec_expired_def spec_remaining_def)

text \<open>
  C6. The specification: on every backend, \<^verbatim>\<open>Get\<close> of a valid key with no stored entry
  returns nil with no error. As amended: for every valid key with no stored entry, \<^verbatim>\<open>Get\<close>
  on the in-memory storage returns nil with no error; the redis adapter returns what its
  client reports for the key, unchanged.
\<close>

theorem Get_absent:
  assumes "TrimSpace key \<noteq> []" and "h key = None"
  shows "memory_Get h key = Inr None \<and> redis_Get client c key = client_Get client key c"
  using assms by (simp add: memory_Get_def redis_Get_def)

theorem Get_absent_witness:
  "TrimSpace ''gone'' \<noteq> []
   \<and> [''key'' \<mapsto> \<lparr>Key = ''key'', Value = ''value'', TTL = 0\<rparr>] ''gone'' = None
   \<and> memory_Get [''key'' \<mapsto> \<lparr>Key = ''key'', Value = ''value'', TTL = 0\<rparr>] ''gone'' = Inr None
   \<and> redis_Get emptyServer () ''gone'' = Inl redis_Nil"
proof -
  have absent: "[''key'' \<mapsto> \<lparr>Key = ''key'', Value = ''value'', TTL = 0\<rparr>] ''gone'' = None"
    by simp
  show ?thesis
    using Get_absent [where key = "''gone''" and client = emptyServer and c = "()"
        and h = "[''key'' \<mapsto> \<lparr>Key = ''key'', Value = ''value'', TTL = 0\<rparr>]"] valid_gone
    by (simp add: emptyServer_def)
qed

text \<open>
  Against the claim as stated: against a server that holds no key, the client reports
  \<^verbatim>\<open>redis.Nil\<close> for a valid key, and the adapter's \<^verbatim>\<open>Get\<close> returns that error.
\<close>

theorem redis_Get_absent_counterexample:
  "TrimSpace ''key'' \<noteq> [] \<and> redis_Get emptyServer () ''key'' = Inl redis_Nil"
  using valid_key by (simp add: redis_Get_def emptyServer_def)

text \<open>
  C7. The specification: \<^verbatim>\<open>MGet\<close> returns only the values of the keys that are present
  and unexpired. As amended: for every list of valid keys, \<^verbatim>\<open>MGet\<close> on the in-memory
  storage returns, in the order of the request, the stored item of every requested key
  that has an entry in the heap (whether or not its expiry moment has passed) and nothing
  for the other keys, so the length of the result is the number of requested keys that have
  an entry and at most the number of requested keys; the redis adapter returns the reply
  of its client unchanged.
\<close>

theorem MGet_present:
  assumes "\<forall>k\<in>set ks. TrimSpace k \<noteq> []"
  shows "memory_MGet h (Some ks) = Inr (map (\<lambda>k. the (h k)) (filter (\<lambda>k. h k \<noteq> None) ks))
         \<and> length (map (\<lambda>k. the (h k)) (filter (\<lambda>k. h k \<noteq> None) ks))
             = length (filter (\<lambda>k. h k \<noteq> None) ks)
         \<and> length (filter (\<lambda>k. h k \<noteq> None) ks) \<le> length ks
         \<and> redis_MGet client c (Some ks) = client_MGet client ks c"
proof -
  have "checkKeys ks = None"
    using assms by (simp add: checkKeys_None_iff)
  then show ?thesis
    by (simp add: memory_MGet_def redis_MGet_def elems_def memory_MGet_loop_eq)
qed

theorem MGet_present_witness:
  "TrimSpace ''key'' \<noteq> [] \<and> TrimSpace ''gone'' \<noteq> []
   \<and> memory_MGet [''key'' \<mapsto> \<lparr>Key = ''key'', Value = ''value'', TTL = 105\<rparr>]
        (Some [''key'', ''gone'', ''key''])
       = Inr [\<lparr>Key = ''key'', Value = ''value'', TTL = 105\<rparr>,
              \<lparr>Key = ''key'', Value = ''value'', TTL = 105\<rparr>]
   \<and> redis_MGet emptyServer () (Some [''key'', ''gone'', ''key'']) = Inr [None, None, None]"
proof -
  have valid: "\<forall>k\<in>set [''key'', ''gone'', ''key'']. TrimSpace k \<noteq> []"
    using valid_key valid_gone by simp
  show ?thesis
    using MGet_present [OF valid,
        of "[''key'' \<mapsto> \<lparr>Key = ''key'', Value = ''value'', TTL = 105\<rparr>]" emptyServer "()"]
      valid_key valid_gone
    by (simp add: emptyServer_def)
qed

text \<open>
  Against the claim as stated: the item set at second 100 with a TTL of 5 seconds has
  expired at second 110, and as long as no sweep has run \<^verbatim>\<open>MGet\<close> still returns it.
\<close>

theorem memory_MGet_expired_counterexample:
  "(case snd (memory_Set (constClock 100000000000) Map.empty
              (Some [\<lparr>Key = ''key'', Value = ''value'', TTL = 5\<rparr>])) ''key'' of
      None \<Rightarrow> False
    | Some v \<Rightarrow> spec_expired 110000000000 v)
   \<and> memory_MGet
        (snd (memory_Set (constClock 100000000000) Map.empty
          (Some [\<lparr>Key = ''key'', Value = ''value'', TTL = 5\<rparr>])))
        (Some [''key'']) = Inr [\<lparr>Key = ''key'', Value = ''value'', TTL = 105\<rparr>]"
  using valid_key
  by (simp add: memory_Set_def memory_MGet_def elems_def constClock_def Unix_def Add_def
      Seconds_def wrap64_def spec_expired_def)

text \<open>
  C8. The specification: every operation that takes keys refuses a key that is empty or
  only white space, before any mutation. \<^verbatim>\<open>Has\<close>, \<^verbatim>\<open>Get\<close>, \<^verbatim>\<open>MGet\<close>, \<^verbatim>\<open>TTL\<close> and
  \<^verbatim>\<open>Delete\<close> do; \<^verbatim>\<open>MExpire\<close> does not look at its keys. For every timeout other than
  zero and every list of keys, valid or not, \<^verbatim>\<open>MExpire\<close> on the in-memory storage reports
  no error and replaces the expiry of every named key that has an entry, and on the redis
  adapter it reports no error either.
\<close>

theorem MExpire_accepts_empty_key:
  assumes "timeout \<noteq> 0"
  shows "memory_MExpire now h timeout (Some ks)
           = (None, \<lambda>k. if k \<in> set ks
                         then map_option (\<lambda>v. v\<lparr>TTL := Unix (Add now (Seconds timeout))\<rparr>) (h k)
                         else h k)
         \<and> fst (redis_MExpire client c timeout (Some ks)) = None"
  using assms
  by (simp add: memory_MExpire_def redis_MExpire_def elems_def memory_MExpire_loop_eq)

theorem MExpire_accepts_empty_key_witness:
  "(5::int) \<noteq> 0 \<and> TrimSpace [] = [] \<and> TrimSpace ''   '' = []
   \<and> fst (memory_MExpire 100000000000 [[] \<mapsto> \<lparr>Key = [], Value = ''value'', TTL = 0\<rparr>] 5
        (Some [[], ''   ''])) = None
   \<and> snd (memory_MExpire 100000000000 [[] \<mapsto> \<lparr>Key = [], Value = ''value'', TTL = 0\<rparr>] 5
        (Some [[], ''   ''])) [] = Some \<lparr>Key = [], Value = ''value'', TTL = 105\<rparr>
   \<and> fst (redis_MExpire emptyServer () 5 (Some [[], ''   ''])) = None"
proof -
  have nz: "(5::int) \<noteq> 0" by simp
  show ?thesis
    using MExpire_accepts_empty_key [OF nz, of 100000000000
        "[[] \<mapsto> \<lparr>Key = [], Value = ''value'', TTL = 0\<rparr>]" "[[], ''   '']" emptyServer "()"]
      blank_keys
    by (simp add: Unix_def Add_def Seconds_def wrap64_def)
qed

text \<open>
  C9. The specification: on every backend, a \<^verbatim>\<open>Set\<close> whose items contain the zero item
  fails with \<^verbatim>\<open>ErrEmptyItem\<close>. The redis adapter compares every item with
  \<^verbatim>\<open>kv.EmptyItem\<close>; the in-memory storage does not: for every list of items that contains
  the zero item, its \<^verbatim>\<open>Set\<close> reports no error, and when the zero item comes last it is
  stored under the empty key.
\<close>

theorem memory_Set_accepts_EmptyItem:
  "fst (memory_Set clock h (Some (items @ EmptyItem # rest))) = None
   \<and> snd (memory_Set clock h (Some (items @ [EmptyItem]))) [] = Some EmptyItem"
  using memory_Set_loop_last [of clock 0 h items EmptyItem]
  by (simp add: memory_Set_def elems_def EmptyItem_def)

text \<open>
  C10. A call of \<^verbatim>\<open>Set\<close>, \<^verbatim>\<open>MExpire\<close> or \<^verbatim>\<open>Delete\<close> on the in-memory storage, whether it
  succeeds or fails, leaves the entry of every key that its arguments do not name as it
  was.
\<close>

theorem memory_writes_frame:
  "(k \<notin> Key ` set (elems items) \<longrightarrow> snd (memory_Set clock h items) k = h k)
   \<and> (k \<notin> set (elems keys) \<longrightarrow> snd (memory_MExpire now h timeout keys) k = h k)
   \<and> (k \<notin> set (elems keys) \<longrightarrow> snd (memory_Delete h keys) k = h k)"
  by (simp add: memory_Set_def memory_MExpire_def memory_Delete_def memory_Set_loop_frame
      memory_MExpire_loop_frame memory_Delete_loop_eq split: option.splits)

theorem memory_writes_frame_witness:
  "''other'' \<notin> Key ` set (elems (Some [\<lparr>Key = ''key'', Value = ''new'', TTL = 5\<rparr>]))
   \<and> snd (memory_Set (constClock 100000000000)
            [''key'' \<mapsto> \<lparr>Key = ''key'', Value = ''old'', TTL = 0\<rparr>,
             ''other'' \<mapsto> \<lparr>Key = ''other'', Value = ''kept'', TTL = 200\<rparr>]
            (Some [\<lparr>Key = ''key'', Value = ''new'', TTL = 5\<rparr>])) ''other''
       = Some \<lparr>Key = ''other'', Value = ''kept'', TTL = 200\<rparr>
   \<and> ''other'' \<notin> set (elems (Some [''key'']))
   \<and> snd (memory_MExpire 100000000000
            [''key'' \<mapsto> \<lparr>Key = ''key'', Value = ''old'', TTL = 0\<rparr>,
             ''other'' \<mapsto> \<lparr>Key = ''other'', Value = ''kept'', TTL = 200\<rparr>]
            5 (Some [''key''])) ''other''
       = Some \<lparr>Key = ''other'', Value = ''kept'', TTL = 200\<rparr>
   \<and> snd (memory_Delete
            [''key'' \<mapsto> \<lparr>Key = ''key'', Value = ''old'', TTL = 0\<rparr>,
             ''other'' \<mapsto> \<lparr>Key = ''other'', Value = ''kept'', TTL = 200\<rparr>]
            (Some [''key''])) ''other''
       = Some \<lparr>Key = ''other'', Value = ''kept'', TTL = 200\<rparr>"
  using memory_writes_frame [of "''other''" "Some [\<lparr>Key = ''key'', Value = ''new'', TTL = 5\<rparr>]"
      "constClock 100000000000"
      "[''key'' \<mapsto> \<lparr>Key = ''key'', Value = ''old'', TTL = 0\<rparr>,
        ''other'' \<mapsto> \<lparr>Key = ''other'', Value = ''kept'', TTL = 200\<rparr>]"
      "Some [''key'']" 100000000000 5]
  by (simp add: elems_def)

end
